theory Spec2Isabelle
  imports Complex_Main "HOL-Library.Word" "HOL-Library.Sublist"
begin

section \<open>Hermes: silent spots in the audio track of a video (src/main.cpp)\<close>

text \<open>
  A shallow embedding of \<^verbatim>\<open>calculateEnergy\<close>, \<^verbatim>\<open>insertTimestamp\<close> and the frame loop of
  \<^verbatim>\<open>main\<close>. Conventions:
  \<^item> a finite \<^verbatim>\<open>double\<close> is a \<open>real\<close>: rounding is not modelled, arithmetic is exact;
  \<^item> the result of a floating-point division is a \<open>double\<close> below, so that a division by
    zero yields NaN or an infinity as IEEE 754 does;
  \<^item> \<^verbatim>\<open>int\<close> is \<open>int\<close>; a conversion of a \<^verbatim>\<open>double\<close> to \<^verbatim>\<open>int\<close> whose value does not fit 32 bits,
    and a read past the sample buffer, are undefined behaviour: the result \<open>None\<close>;
  \<^item> the demuxer and decoder (FFmpeg) are outside the program: the frames they deliver,
    the stream's time base and duration and the codec's fields are inputs.
\<close>

subsection \<open>Doubles that need not be finite\<close>

datatype double = Num real | PInf | NInf | NaN

text \<open>\<^verbatim>\<open>x / y\<close> on doubles, for finite operands; the divisor comes from an \<^verbatim>\<open>int\<close>, so a zero
  divisor is \<^verbatim>\<open>+0.0\<close>.\<close>

definition ddiv :: "real \<Rightarrow> real \<Rightarrow> double" where
  "ddiv x y = (if y \<noteq> 0 then Num (x / y)
               else if x = 0 then NaN else if 0 < x then PInf else NInf)"

text \<open>\<^verbatim>\<open>x <= y\<close> for a double \<open>x\<close> and a finite \<open>y\<close>: every comparison with NaN is false.\<close>

fun dle :: "double \<Rightarrow> real \<Rightarrow> bool" where
  "dle (Num x) y = (x \<le> y)"
| "dle NInf y = True"
| "dle PInf y = False"
| "dle NaN y = False"

subsection \<open>Configuration (main.cpp, line 34)\<close>

definition THRESHOLD :: real where
  "THRESHOLD = 0.265"

subsection \<open>calculateEnergy (main.cpp, lines 43-52)\<close>

text \<open>The \<^verbatim>\<open>for\<close> loop, with the loop counter \<open>i\<close> and the accumulator \<open>energy\<close>. The buffer
  \<open>samples\<close> is the list of the \<^verbatim>\<open>int16_t\<close> values that the pointer gives access to.\<close>

function energy_loop :: "16 word list \<Rightarrow> int \<Rightarrow> int \<Rightarrow> real \<Rightarrow> real option" where
  "energy_loop samples sample_count i energy =
     (if i < sample_count then
        (if 0 \<le> i \<and> nat i < length samples then
           (let sample = real_of_int (sint (samples ! nat i)) / 32768
            in energy_loop samples sample_count (i + 1) (energy + sample * sample))
         else None)
      else Some energy)"
  by pat_completeness auto
termination
  by (relation "measure (\<lambda>(samples, sample_count, i, energy). nat (sample_count - i))") auto

declare energy_loop.simps [simp del]

definition calculateEnergy :: "16 word list \<Rightarrow> int \<Rightarrow> double option" where
  "calculateEnergy samples sample_count =
     (case energy_loop samples sample_count 0 0 of
        None \<Rightarrow> None
      | Some energy \<Rightarrow> Some (ddiv energy (real_of_int sample_count)))"

subsection \<open>The silence test (main.cpp, line 155)\<close>

definition is_silent :: "double \<Rightarrow> bool" where
  "is_silent energy = dle energy THRESHOLD"

subsection \<open>insertTimestamp (main.cpp, lines 61-70)\<close>

text \<open>The conversion of a \<^verbatim>\<open>double\<close> to \<^verbatim>\<open>int\<close> drops the fractional part (rounds towards
  zero); the behaviour is undefined when the result does not fit the 32-bit \<^verbatim>\<open>int\<close>.\<close>

definition trunc :: "real \<Rightarrow> int" where
  "trunc x = (if 0 \<le> x then \<lfloor>x\<rfloor> else \<lceil>x\<rceil>)"

definition fits_int :: "int \<Rightarrow> bool" where
  "fits_int i = (- 2147483648 \<le> i \<and> i \<le> 2147483647)"

definition to_int :: "real \<Rightarrow> int option" where
  "to_int x = (if fits_int (trunc x) then Some (trunc x) else None)"

text \<open>Lines 62-66: the four \<^verbatim>\<open>int\<close> variables, in the order
  \<open>(start_minutes, start_seconds, end_minutes, end_seconds)\<close>.\<close>

definition timestamp_fields :: "real \<Rightarrow> real \<Rightarrow> (int \<times> int \<times> int \<times> int) option" where
  "timestamp_fields start_time end_time =
     (case to_int (real_of_int \<lfloor>start_time / 60\<rfloor>) of None \<Rightarrow> None
      | Some start_minutes \<Rightarrow>
     (case to_int (start_time - real_of_int start_minutes * 60) of None \<Rightarrow> None
      | Some start_seconds \<Rightarrow>
     (case to_int (real_of_int \<lfloor>end_time / 60\<rfloor>) of None \<Rightarrow> None
      | Some end_minutes \<Rightarrow>
     (case to_int (end_time - real_of_int start_minutes * 60) of None \<Rightarrow> None
      | Some end_seconds \<Rightarrow>
          Some (start_minutes, start_seconds, end_minutes, end_seconds)))))"

text \<open>\<^verbatim>\<open>operator<<\<close> of the standard library on an \<^verbatim>\<open>int\<close>: decimal digits, with a minus sign
  for a negative number.\<close>

function digits :: "nat \<Rightarrow> string" where
  "digits n = (if n < 10 then [''0123456789'' ! n]
               else digits (n div 10) @ [''0123456789'' ! (n mod 10)])"
  by pat_completeness auto
termination
  by (relation "measure (\<lambda>n. n)") auto

declare digits.simps [simp del]

definition show_int :: "int \<Rightarrow> string" where
  "show_int i = (if i < 0 then CHR ''-'' # digits (nat (- i)) else digits (nat i))"

definition endl :: string where
  "endl = [CHR 0x0A]"

text \<open>Lines 68-69: the text written for one interval.\<close>

definition report_line :: "int \<times> int \<times> int \<times> int \<Rightarrow> string" where
  "report_line f =
     (case f of (start_minutes, start_seconds, end_minutes, end_seconds) \<Rightarrow>
        ''Silent time: '' @ show_int start_minutes @ ''m'' @ show_int start_seconds @ ''s - ''
          @ show_int end_minutes @ ''m'' @ show_int end_seconds @ ''s'' @ endl)"

text \<open>The output file is the text written to it so far.\<close>

definition insertTimestamp :: "string \<Rightarrow> real \<Rightarrow> real \<Rightarrow> string option" where
  "insertTimestamp output_file start_time end_time =
     (case timestamp_fields start_time end_time of
        None \<Rightarrow> None
      | Some f \<Rightarrow> Some (output_file @ report_line f))"

subsection \<open>The frame loop and the end of the stream (main.cpp, lines 131-180)\<close>

text \<open>What the loop reads of a decoded \<^verbatim>\<open>AVFrame\<close>: \<^verbatim>\<open>pts\<close>, \<^verbatim>\<open>nb_samples\<close>,
  \<^verbatim>\<open>ch_layout.nb_channels\<close> and the samples behind \<^verbatim>\<open>data[0]\<close>.\<close>

record AVFrame =
  pts :: int
  nb_samples :: int
  nb_channels :: int
  data0 :: "16 word list"

text \<open>\<^verbatim>\<open>(double)frame->pts * frame_rate\<close> (lines 157 and 160), where \<open>frame_rate\<close> is the
  stream's time base in seconds per tick (line 131).\<close>

definition frame_time :: "real \<Rightarrow> int \<Rightarrow> real" where
  "frame_time frame_rate pts_ticks = real_of_int pts_ticks * frame_rate"

text \<open>Lines 151-164 for one frame. The state is \<open>(last_silent_time, output_file)\<close>.\<close>

definition process_frame :: "real \<Rightarrow> real \<times> string \<Rightarrow> AVFrame \<Rightarrow> (real \<times> string) option" where
  "process_frame frame_rate st frame =
     (case st of (last_silent_time, output_file) \<Rightarrow>
      (let sample_count = nb_samples frame * nb_channels frame in
       case calculateEnergy (data0 frame) sample_count of
         None \<Rightarrow> None
       | Some energy \<Rightarrow>
           if dle energy THRESHOLD then
             (if last_silent_time = - 1
              then Some (frame_time frame_rate (pts frame), output_file)
              else Some (last_silent_time, output_file))
           else if last_silent_time \<noteq> - 1 then
             (let end_time = frame_time frame_rate (pts frame) in
              case insertTimestamp output_file last_silent_time end_time of
                None \<Rightarrow> None
              | Some output_file' \<Rightarrow> Some (- 1, output_file'))
           else Some (last_silent_time, output_file)))"

text \<open>The two nested \<^verbatim>\<open>while\<close> loops (lines 135-171) over the frames the decoder delivers.\<close>

fun frame_loop :: "real \<Rightarrow> real \<times> string \<Rightarrow> AVFrame list \<Rightarrow> (real \<times> string) option" where
  "frame_loop frame_rate st [] = Some st"
| "frame_loop frame_rate st (frame # frames) =
     (case process_frame frame_rate st frame of
        None \<Rightarrow> None
      | Some st' \<Rightarrow> frame_loop frame_rate st' frames)"

text \<open>Lines 174-177: \<^verbatim>\<open>duration * ticks / (double)(codec_context->time_base.den)\<close>.\<close>

definition end_of_stream_time :: "int \<Rightarrow> int \<Rightarrow> int \<Rightarrow> double" where
  "end_of_stream_time duration ticks den =
     ddiv (real_of_int duration * real_of_int ticks) (real_of_int den)"

text \<open>\<^verbatim>\<open>main\<close> from line 131 on: \<open>last_silent_time\<close> starts at \<open>-1\<close> and the output file empty;
  after the loop the open interval, if any, is written (lines 173-180). An end time that
  is not finite has no defined conversion to \<^verbatim>\<open>int\<close> in \<^verbatim>\<open>insertTimestamp\<close>. The result is
  the content of the output file.\<close>

definition hermes_main :: "real \<Rightarrow> AVFrame list \<Rightarrow> int \<Rightarrow> int \<Rightarrow> int \<Rightarrow> string option" where
  "hermes_main frame_rate frames duration ticks_per_frame time_base_den =
     (case frame_loop frame_rate (- 1, []) frames of
        None \<Rightarrow> None
      | Some (last_silent_time, output_file) \<Rightarrow>
          if last_silent_time \<noteq> - 1 then
            (case end_of_stream_time duration ticks_per_frame time_base_den of
               Num end_time \<Rightarrow> insertTimestamp output_file last_silent_time end_time
             | _ \<Rightarrow> None)
          else Some output_file)"

subsection \<open>The tracker inside the loop: observe and flush\<close>

text \<open>The same lines seen as the specification's tracker. The state is the variable
  \<open>last_silent_time\<close> alone; a call of \<^verbatim>\<open>insertTimestamp\<close> is returned as the emitted
  interval \<open>(start_time, end_time)\<close> instead of being written.\<close>

type_synonym interval = "real \<times> real"

text \<open>Lines 155-164, with \<open>timestamp_seconds\<close> the frame's \<open>frame_time\<close>.\<close>

definition observe :: "real \<Rightarrow> real \<Rightarrow> double \<Rightarrow> real \<times> interval option" where
  "observe last_silent_time timestamp_seconds energy =
     (if dle energy THRESHOLD then
        (if last_silent_time = - 1 then (timestamp_seconds, None)
         else (last_silent_time, None))
      else if last_silent_time \<noteq> - 1 then
        (- 1, Some (last_silent_time, timestamp_seconds))
      else (last_silent_time, None))"

text \<open>Lines 173-180, with \<open>end_time\<close> the time computed in lines 174-177. The variable
  \<open>last_silent_time\<close> is not assigned there.\<close>

definition flush :: "real \<Rightarrow> real \<Rightarrow> real \<times> interval option" where
  "flush last_silent_time end_time =
     (if last_silent_time \<noteq> - 1 then (last_silent_time, Some (last_silent_time, end_time))
      else (last_silent_time, None))"

text \<open>A whole stream of \<open>(timestamp_seconds, energy)\<close> pairs: the state after it and the
  intervals emitted, in the order of their emission.\<close>

fun feed :: "real \<Rightarrow> (real \<times> double) list \<Rightarrow> real \<times> interval list" where
  "feed last_silent_time [] = (last_silent_time, [])"
| "feed last_silent_time ((t, energy) # rest) =
     (case observe last_silent_time t energy of
        (last_silent_time', emitted) \<Rightarrow>
          (case feed last_silent_time' rest of
             (final, intervals) \<Rightarrow> (final, (case emitted of None \<Rightarrow> [] | Some iv \<Rightarrow> [iv]) @ intervals)))"

text \<open>All frames observed, then one flush: the intervals emitted, from any state and
  from the initial state of line 132.\<close>

definition run_from :: "real \<Rightarrow> (real \<times> double) list \<Rightarrow> real \<Rightarrow> interval list" where
  "run_from last_silent_time frames end_time =
     (case feed last_silent_time frames of
        (final, intervals) \<Rightarrow>
          intervals @ (case snd (flush final end_time) of None \<Rightarrow> [] | Some iv \<Rightarrow> [iv]))"

definition tracker_run :: "(real \<times> double) list \<Rightarrow> real \<Rightarrow> interval list" where
  "tracker_run frames end_time = run_from (- 1) frames end_time"

text \<open>The two states of the specification's tracker, read off \<open>last_silent_time\<close>.\<close>

datatype tracker_state = NoOpenInterval | OpenInterval real

definition state_of :: "real \<Rightarrow> tracker_state" where
  "state_of last_silent_time =
     (if last_silent_time = - 1 then NoOpenInterval else OpenInterval last_silent_time)"

text \<open>The \<open>(timestamp_seconds, energy)\<close> pairs of a list of frames (lines 151-152, 157, 160).\<close>

fun observations :: "real \<Rightarrow> AVFrame list \<Rightarrow> (real \<times> double) list option" where
  "observations frame_rate [] = Some []"
| "observations frame_rate (frame # frames) =
     (case calculateEnergy (data0 frame) (nb_samples frame * nb_channels frame) of
        None \<Rightarrow> None
      | Some energy \<Rightarrow>
          (case observations frame_rate frames of
             None \<Rightarrow> None
           | Some rest \<Rightarrow> Some ((frame_time frame_rate (pts frame), energy) # rest)))"

subsection \<open>The tracker as the specification words it\<close>

text \<open>Section 4.2 of the specification: the transition table of \<open>observe\<close> and the
  contract of \<open>flush\<close> over the two abstract states, for comparison with the code.\<close>

fun spec_observe :: "tracker_state \<Rightarrow> real \<Rightarrow> bool \<Rightarrow> tracker_state \<times> interval option" where
  "spec_observe NoOpenInterval t True = (OpenInterval t, None)"
| "spec_observe NoOpenInterval t False = (NoOpenInterval, None)"
| "spec_observe (OpenInterval start) t True = (OpenInterval start, None)"
| "spec_observe (OpenInterval start) t False = (NoOpenInterval, Some (start, t))"

fun spec_flush :: "tracker_state \<Rightarrow> real \<Rightarrow> tracker_state \<times> interval option" where
  "spec_flush (OpenInterval start) t = (NoOpenInterval, Some (start, t))"
| "spec_flush NoOpenInterval t = (NoOpenInterval, None)"

text \<open>The number of maximal runs of consecutive silent frames in a list of
  classifications. A run ends at a silent frame that is the last one or is followed by
  a frame that is not silent; the runs are counted by their ends.\<close>

fun silent_runs :: "bool list \<Rightarrow> nat" where
  "silent_runs [] = 0"
| "silent_runs [s] = (if s then 1 else 0)"
| "silent_runs (s # s' # rest) = (if s \<and> \<not> s' then 1 else 0) + silent_runs (s' # rest)"

text \<open>The positions at which a maximal run of silent frames ends.\<close>

definition run_ends :: "bool list \<Rightarrow> nat set" where
  "run_ends bs = {i. i < length bs \<and> bs ! i \<and> (Suc i < length bs \<longrightarrow> \<not> bs ! Suc i)}"

text \<open>The start and end times of a list of intervals, one after the other.\<close>

fun endpoints :: "interval list \<Rightarrow> real list" where
  "endpoints [] = []"
| "endpoints ((start_time, end_time) # rest) = start_time # end_time # endpoints rest"

section \<open>Properties\<close>

subsection \<open>Auxiliary facts\<close>

lemma energy_loop_sum:
  "0 \<le> i \<Longrightarrow> i \<le> n \<Longrightarrow> n \<le> int (length samples) \<Longrightarrow>
   energy_loop samples n i acc =
     Some (acc + (\<Sum>k = nat i..<nat n. (real_of_int (sint (samples ! k)) / 32768)\<^sup>2))"
proof (induction samples n i acc rule: energy_loop.induct)
  case (1 samples sample_count i energy)
  show ?case
  proof (cases "i < sample_count")
    case True
    with "1.prems" have inb: "0 \<le> i \<and> nat i < length samples" by linarith
    have nxt: "nat (i + 1) = Suc (nat i)" using "1.prems" by simp
    have lt: "nat i < nat sample_count" using True "1.prems" by simp
    have IH: "energy_loop samples sample_count (i + 1)
                (energy + real_of_int (sint (samples ! nat i)) / 32768 * (real_of_int (sint (samples ! nat i)) / 32768)) =
              Some (energy + real_of_int (sint (samples ! nat i)) / 32768 * (real_of_int (sint (samples ! nat i)) / 32768)
                 + (\<Sum>k = nat (i + 1)..<nat sample_count. (real_of_int (sint (samples ! k)) / 32768)\<^sup>2))"
      using "1.IH" [OF True inb refl] True "1.prems" by simp
    show ?thesis
      using True inb IH
      by (subst energy_loop.simps)
         (simp add: Let_def nxt sum.atLeast_Suc_lessThan [OF lt] power2_eq_square)
  next
    case False
    with "1.prems" have "i = sample_count" by simp
    then show ?thesis by (subst energy_loop.simps) simp
  qed
qed

lemma energy_loop_empty: "sample_count \<le> 0 \<Longrightarrow> energy_loop samples sample_count 0 0 = Some 0"
  by (subst energy_loop.simps) simp

lemma run_from_Nil: "run_from l [] e = (if l \<noteq> - 1 then [(l, e)] else [])"
  by (simp add: run_from_def flush_def)

lemma run_from_Cons:
  "run_from l ((t, en) # fs) e =
     (if is_silent en then (if l = - 1 then run_from t fs e else run_from l fs e)
      else if l \<noteq> - 1 then (l, t) # run_from (- 1) fs e
      else run_from l fs e)"
  by (simp add: run_from_def observe_def is_silent_def split: prod.splits)

text \<open>Every start and end time emitted is the open start, a frame's time or the end of
  the stream.\<close>

lemma endpoints_run_from_subset:
  "set (endpoints (run_from l fs e)) \<subseteq> (if l = - 1 then {} else {l}) \<union> fst ` set fs \<union> {e}"
proof (induction fs arbitrary: l)
  case Nil
  then show ?case by (simp add: run_from_Nil)
next
  case (Cons f fs)
  obtain t en where f: "f = (t, en)" by (cases f)
  show ?case
    using Cons.IH [of l] Cons.IH [of t] Cons.IH [of "- 1"]
    by (auto simp: f run_from_Cons split: if_splits)
qed

lemma sorted_endpoints_run_from:
  "sorted_wrt (<) (map fst fs) \<Longrightarrow> \<forall>t \<in> fst ` set fs. t \<noteq> - 1 \<and> t \<le> e \<Longrightarrow>
   (l \<noteq> - 1 \<longrightarrow> l \<le> e \<and> (\<forall>t \<in> fst ` set fs. l < t)) \<Longrightarrow>
   sorted (endpoints (run_from l fs e))"
proof (induction fs arbitrary: l)
  case Nil
  then show ?case by (simp add: run_from_Nil)
next
  case (Cons f fs)
  obtain t en where f: "f = (t, en)" by (cases f)
  from Cons.prems have srt: "sorted_wrt (<) (map fst fs)"
    and later: "\<forall>u \<in> fst ` set fs. t < u"
    and bnd: "\<forall>u \<in> fst ` set fs. u \<noteq> - 1 \<and> u \<le> e"
    and t: "t \<noteq> - 1" "t \<le> e"
    by (auto simp: f)
  have closed: "sorted (endpoints (run_from (- 1) fs e))"
    by (rule Cons.IH [OF srt bnd]) simp
  have opened: "sorted (endpoints (run_from t fs e))"
    by (rule Cons.IH [OF srt bnd]) (use t later in simp)
  have kept: "l \<noteq> - 1 \<Longrightarrow> sorted (endpoints (run_from l fs e))"
    by (rule Cons.IH [OF srt bnd]) (use Cons.prems(3) in \<open>auto simp: f\<close>)
  have after: "\<forall>x \<in> set (endpoints (run_from (- 1) fs e)). t \<le> x"
    using endpoints_run_from_subset [of "- 1" fs e] later t by fastforce
  have lt: "l \<noteq> - 1 \<Longrightarrow> l \<le> t"
    using Cons.prems(3) by (auto simp: f)
  show ?case
    using closed opened kept after lt
    by (auto simp: f run_from_Cons)
qed

lemma silent_runs_False: "silent_runs (False # bs) = silent_runs bs"
  by (cases bs) simp_all

text \<open>An open interval counts as a run that has already begun.\<close>

lemma length_run_from:
  "\<forall>t \<in> fst ` set fs. t \<noteq> - 1 \<Longrightarrow>
   length (run_from l fs e) =
     silent_runs ((if l \<noteq> - 1 then [True] else []) @ map (is_silent \<circ> snd) fs)"
proof (induction fs arbitrary: l)
  case Nil
  then show ?case by (simp add: run_from_Nil)
next
  case (Cons f fs)
  obtain t en where f: "f = (t, en)" by (cases f)
  from Cons.prems have t: "t \<noteq> - 1" and rest: "\<forall>u \<in> fst ` set fs. u \<noteq> - 1"
    by (auto simp: f)
  show ?case
    using Cons.IH [OF rest, of l] Cons.IH [OF rest, of t] Cons.IH [OF rest, of "- 1"] t
    by (auto simp: f run_from_Cons silent_runs_False)
qed

lemma subseq_skip_second:
  assumes "subseq xs (a # ys)"
  shows "subseq xs (a # b # ys)"
proof -
  have "subseq (a # ys) (a # b # ys)" by auto
  with assms show ?thesis by (rule subseq_order.trans)
qed

lemma subseq_starts_run_from:
  "subseq (map fst (run_from l fs e)) ((if l \<noteq> - 1 then [l] else []) @ map fst fs)"
proof (induction fs arbitrary: l)
  case Nil
  then show ?case by (simp add: run_from_Nil)
next
  case (Cons f fs)
  obtain t en where f: "f = (t, en)" by (cases f)
  have closed: "subseq (map fst (run_from (- 1) fs e)) (map fst fs)"
    using Cons.IH [of "- 1"] by simp
  have opened: "subseq (map fst (run_from t fs e)) (t # map fst fs)"
    using Cons.IH [of t] by (cases "t = - 1") (simp_all add: list_emb_Cons)
  have kept: "l \<noteq> - 1 \<Longrightarrow> subseq (map fst (run_from l fs e)) (l # t # map fst fs)"
    using Cons.IH [of l] by (simp add: subseq_skip_second del: subseq_Cons2_iff)
  show ?case
  proof (cases "is_silent en")
    case True
    then show ?thesis using opened kept by (simp add: f run_from_Cons)
  next
    case False
    then show ?thesis using closed by (simp add: f run_from_Cons list_emb_Cons)
  qed
qed

lemma set_endpoints: "set (endpoints ivs) = fst ` set ivs \<union> snd ` set ivs"
  by (induction ivs rule: endpoints.induct) auto

lemma sorted_endpoints_start_le_end:
  "sorted (endpoints ivs) \<Longrightarrow> (s, e) \<in> set ivs \<Longrightarrow> s \<le> e"
  by (induction ivs rule: endpoints.induct) auto

lemma sorted_endpoints_starts: "sorted (endpoints ivs) \<Longrightarrow> sorted (map fst ivs)"
  by (induction ivs rule: endpoints.induct) (auto simp: set_endpoints)

lemma sorted_endpoints_disjoint:
  "sorted (endpoints ivs) \<Longrightarrow> i < j \<Longrightarrow> j < length ivs \<Longrightarrow> snd (ivs ! i) \<le> fst (ivs ! j)"
proof (induction ivs arbitrary: i j rule: endpoints.induct)
  case 1
  then show ?case by simp
next
  case (2 s e rest)
  from "2.prems" obtain j' where j: "j = Suc j'" by (cases j) auto
  show ?case
  proof (cases i)
    case 0
    have "fst (rest ! j') \<in> set (endpoints rest)"
      using "2.prems" j by (auto simp: set_endpoints)
    then show ?thesis using "2.prems" 0 j by auto
  next
    case (Suc i')
    then show ?thesis using "2.IH" [of i' j'] "2.prems" j by auto
  qed
qed

text \<open>\<open>silent_runs\<close> counts the ends of the maximal runs.\<close>

lemma run_ends_Nil: "run_ends [] = {}"
  by (simp add: run_ends_def)

lemma run_ends_single: "run_ends [s] = (if s then {0} else {})"
  by (auto simp: run_ends_def)

lemma run_ends_Cons:
  "run_ends (s # s' # rest) = (if s \<and> \<not> s' then {0} else {}) \<union> Suc ` run_ends (s' # rest)"
proof (rule set_eqI)
  fix i
  show "i \<in> run_ends (s # s' # rest) \<longleftrightarrow>
        i \<in> (if s \<and> \<not> s' then {0} else {}) \<union> Suc ` run_ends (s' # rest)"
  proof (cases i)
    case 0
    then show ?thesis by (auto simp: run_ends_def)
  next
    case (Suc k)
    then show ?thesis by (auto simp: run_ends_def)
  qed
qed

lemma finite_run_ends: "finite (run_ends bs)"
  by (simp add: run_ends_def)

lemma silent_runs_card: "silent_runs bs = card (run_ends bs)"
proof (induction bs rule: silent_runs.induct)
  case 1
  then show ?case by (simp add: run_ends_Nil)
next
  case (2 s)
  then show ?case by (simp add: run_ends_single)
next
  case (3 s s' rest)
  have "card ((if s \<and> \<not> s' then {0} else {}) \<union> Suc ` run_ends (s' # rest)) =
        card (if s \<and> \<not> s' then {0::nat} else {}) + card (Suc ` run_ends (s' # rest))"
    by (rule card_Un_disjoint) (auto simp: finite_run_ends)
  also have "card (Suc ` run_ends (s' # rest)) = card (run_ends (s' # rest))"
    by (rule card_image) simp
  finally show ?case using "3.IH" by (simp add: run_ends_Cons)
qed

text \<open>The conversions and the evaluation of small frames.\<close>

lemma trunc_of_int: "trunc (real_of_int k) = k"
  by (simp add: trunc_def)

lemma to_int_of_int: "to_int (real_of_int k) = (if fits_int k then Some k else None)"
  by (simp add: to_int_def trunc_of_int)

lemma calculateEnergy_zero_count: "calculateEnergy samples 0 = Some NaN"
  by (simp add: calculateEnergy_def energy_loop_empty ddiv_def)

lemma calculateEnergy_one_zero: "calculateEnergy [0] 1 = Some (Num 0)"
  by (simp add: calculateEnergy_def energy_loop.simps ddiv_def)

lemma calculateEnergy_one_full: "calculateEnergy [32767] 1 = Some (Num ((32767 / 32768)\<^sup>2))"
  by (simp add: calculateEnergy_def energy_loop.simps ddiv_def power2_eq_square)

text \<open>The loop of \<open>main\<close> writes the intervals that the tracker emits.\<close>

lemma process_frame_observe:
  "process_frame frame_rate (l, out) frame =
     (case calculateEnergy (data0 frame) (nb_samples frame * nb_channels frame) of
        None \<Rightarrow> None
      | Some energy \<Rightarrow>
          (case observe l (frame_time frame_rate (pts frame)) energy of
             (l', None) \<Rightarrow> Some (l', out)
           | (l', Some (s, e)) \<Rightarrow>
               (case insertTimestamp out s e of
                  None \<Rightarrow> None
                | Some out' \<Rightarrow> Some (l', out'))))"
  by (simp add: process_frame_def observe_def Let_def split: option.splits)

lemma fst_feed_Cons:
  "fst (feed l ((t, en) # rest)) = fst (feed (fst (observe l t en)) rest)"
  by (simp split: prod.splits)

lemma snd_feed_Cons:
  "snd (feed l ((t, en) # rest)) =
     (case snd (observe l t en) of None \<Rightarrow> [] | Some iv \<Rightarrow> [iv])
       @ snd (feed (fst (observe l t en)) rest)"
  by (simp split: prod.splits)

lemma run_from_feed:
  "run_from l obs e =
     snd (feed l obs) @ (if fst (feed l obs) \<noteq> - 1 then [(fst (feed l obs), e)] else [])"
  by (simp add: run_from_def flush_def split: prod.splits)

lemma frame_loop_feed:
  "frame_loop frame_rate (l, out) frames = Some (l', out') \<Longrightarrow>
   \<exists>obs fields. observations frame_rate frames = Some obs
     \<and> fst (feed l obs) = l'
     \<and> map (\<lambda>(s, e). timestamp_fields s e) (snd (feed l obs)) = map Some fields
     \<and> out' = out @ concat (map report_line fields)"
proof (induction frames arbitrary: l out)
  case Nil
  then show ?case by simp
next
  case (Cons frame frames)
  from Cons.prems obtain energy where
    en: "calculateEnergy (data0 frame) (nb_samples frame * nb_channels frame) = Some energy"
    by (auto simp: process_frame_observe split: option.splits)
  let ?t = "frame_time frame_rate (pts frame)"
  obtain l1 em where ob: "observe l ?t energy = (l1, em)" by (cases "observe l ?t energy")
  show ?case
  proof (cases em)
    case None
    with Cons.prems en ob have "frame_loop frame_rate (l1, out) frames = Some (l', out')"
      by (simp add: process_frame_observe)
    from Cons.IH [OF this] obtain obs fields where
      "observations frame_rate frames = Some obs" "fst (feed l1 obs) = l'"
      "map (\<lambda>(s, e). timestamp_fields s e) (snd (feed l1 obs)) = map Some fields"
      "out' = out @ concat (map report_line fields)" by blast
    then show ?thesis using en ob None
      by (intro exI [of _ "(?t, energy) # obs"] exI [of _ fields])
         (simp add: fst_feed_Cons snd_feed_Cons del: feed.simps)
  next
    case (Some iv)
    obtain s e where iv: "iv = (s, e)" by (cases iv)
    from Cons.prems en ob Some iv obtain f where
      tf: "timestamp_fields s e = Some f"
      and rest: "frame_loop frame_rate (l1, out @ report_line f) frames = Some (l', out')"
      by (auto simp: process_frame_observe insertTimestamp_def split: option.splits)
    from Cons.IH [OF rest] obtain obs fields where
      "observations frame_rate frames = Some obs" "fst (feed l1 obs) = l'"
      "map (\<lambda>(s, e). timestamp_fields s e) (snd (feed l1 obs)) = map Some fields"
      "out' = (out @ report_line f) @ concat (map report_line fields)" by blast
    then show ?thesis using en ob Some iv tf
      by (intro exI [of _ "(?t, energy) # obs"] exI [of _ "f # fields"])
         (simp add: fst_feed_Cons snd_feed_Cons del: feed.simps)
  qed
qed

text \<open>A number is written without a line break.\<close>

lemma set_digits: "set (digits n) \<subseteq> set ''0123456789''"
proof (induction n rule: digits.induct)
  case (1 n)
  have nth: "\<And>k. k < 10 \<Longrightarrow> ''0123456789'' ! k \<in> set ''0123456789''"
    by (rule nth_mem) simp
  show ?case
  proof (cases "n < 10")
    case True
    then show ?thesis using nth [of n] by (subst digits.simps) simp
  next
    case False
    have "n mod 10 < 10" by simp
    from nth [OF this] "1.IH" False show ?thesis by (subst digits.simps) simp
  qed
qed

lemma newline_notin_show_int: "CHR 0x0A \<notin> set (show_int i)"
  using set_digits [of "nat i"] set_digits [of "nat (- i)"]
  by (auto simp: show_int_def)

lemma report_line_one_newline: "count_list (report_line f) (CHR 0x0A) = 1"
  by (cases f) (simp add: report_line_def endl_def newline_notin_show_int)

subsection \<open>The energy of a frame\<close>

text \<open>
  C2. For a frame of \<open>N \<ge> 1\<close> samples (the buffer holding at least \<open>N\<close>),
  \<^verbatim>\<open>calculateEnergy\<close> returns the mean over \<open>i < N\<close> of the squares of
  \<open>samples[i] / 32768\<close>: no square root, no offset removed from the samples, no weights.
  When all \<open>N\<close> samples are 0 the energy is 0.
\<close>

theorem calculateEnergy_mean_of_squares:
  "1 \<le> N \<Longrightarrow> N \<le> int (length samples) \<Longrightarrow>
   calculateEnergy samples N =
     Some (Num ((\<Sum>i<nat N. (real_of_int (sint (samples ! i)) / 32768)\<^sup>2) / real_of_int N))
   \<and> ((\<forall>i<nat N. samples ! i = 0) \<longrightarrow> calculateEnergy samples N = Some (Num 0))"
  using energy_loop_sum [of 0 N samples 0]
  by (simp add: calculateEnergy_def ddiv_def atLeast0LessThan)

theorem calculateEnergy_mean_of_squares_witness:
  "(1::int) \<le> 2 \<and> 2 \<le> int (length [16384, - 16384 :: 16 word])
   \<and> calculateEnergy [16384, - 16384] 2 = Some (Num (1 / 4))
   \<and> calculateEnergy [0, 0] 2 = Some (Num 0)"
  using calculateEnergy_mean_of_squares [of 2 "[16384, - 16384]"]
    calculateEnergy_mean_of_squares [of 2 "[0, 0]"]
  by (simp add: lessThan_nat_numeral lessThan_Suc power2_eq_square)

subsection \<open>The classification of a frame\<close>

text \<open>
  C5. A frame is classified as silent exactly when its energy is at most \<open>THRESHOLD\<close>,
  which is 0.265; the bound is inclusive, an energy equal to \<open>THRESHOLD\<close> is silent (of the
  energies that are not finite, only minus infinity passes the comparison). Every frame is
  handled by this test alone: in every state and at every timestamp the tracker takes
  the branch of a silent frame when the energy is at most 0.265 and the branch of a frame
  that is not silent otherwise, and so do the body of the loop for every frame and
  \<open>main\<close> for every stream of one frame. A frame of 25 samples whose energy is exactly
  0.265 is reported as silent.
\<close>

theorem silent_iff_energy_le_threshold:
  "THRESHOLD = 0.265
   \<and> (is_silent (Num e) \<longleftrightarrow> e \<le> THRESHOLD)
   \<and> is_silent (Num THRESHOLD)
   \<and> is_silent NInf \<and> \<not> is_silent PInf \<and> \<not> is_silent NaN
   \<and> (state_of (fst (observe (- 1) 0 (Num e))) = OpenInterval 0 \<longleftrightarrow> e \<le> 0.265)
   \<and> observe last_silent_time timestamp_seconds energy =
       (if is_silent energy then
          (if last_silent_time = - 1 then (timestamp_seconds, None) else (last_silent_time, None))
        else if last_silent_time \<noteq> - 1 then (- 1, Some (last_silent_time, timestamp_seconds))
        else (last_silent_time, None))
   \<and> observe last_silent_time timestamp_seconds (Num e) =
       (if e \<le> 0.265 then
          (if last_silent_time = - 1 then (timestamp_seconds, None) else (last_silent_time, None))
        else if last_silent_time \<noteq> - 1 then (- 1, Some (last_silent_time, timestamp_seconds))
        else (last_silent_time, None))
   \<and> process_frame frame_rate (last_silent_time, output_file) frame =
       (case calculateEnergy (data0 frame) (nb_samples frame * nb_channels frame) of
          None \<Rightarrow> None
        | Some energy \<Rightarrow>
            if is_silent energy then
              (if last_silent_time = - 1 then Some (frame_time frame_rate (pts frame), output_file)
               else Some (last_silent_time, output_file))
            else if last_silent_time \<noteq> - 1 then
              (case insertTimestamp output_file last_silent_time (frame_time frame_rate (pts frame)) of
                 None \<Rightarrow> None
               | Some output_file' \<Rightarrow> Some (- 1, output_file'))
            else Some (last_silent_time, output_file))
   \<and> hermes_main frame_rate [frame] duration ticks_per_frame time_base_den =
       (case calculateEnergy (data0 frame) (nb_samples frame * nb_channels frame) of
          None \<Rightarrow> None
        | Some energy \<Rightarrow>
            if is_silent energy \<and> frame_time frame_rate (pts frame) \<noteq> - 1 then
              (case end_of_stream_time duration ticks_per_frame time_base_den of
                 Num end_time \<Rightarrow> insertTimestamp [] (frame_time frame_rate (pts frame)) end_time
               | _ \<Rightarrow> None)
            else Some [])
   \<and> calculateEnergy [24576, 24576, 24576, 24576, 24576, 24576, 24576, 24576, 24576, 24576, 24576,
                       16384, 8192, 8192, 8192, 0, 0, 0, 0, 0, 0, 0, 0, 0, 0] 25 = Some (Num THRESHOLD)
   \<and> hermes_main 1 [\<lparr>pts = 1, nb_samples = 25, nb_channels = 1,
                      data0 = [24576, 24576, 24576, 24576, 24576, 24576, 24576, 24576, 24576, 24576, 24576,
                               16384, 8192, 8192, 8192, 0, 0, 0, 0, 0, 0, 0, 0, 0, 0]\<rparr>] 2 1 1 =
       Some (''Silent time: 0m1s - 0m2s'' @ endl)"
proof -
  have th: "THRESHOLD = 0.265" by (simp add: THRESHOLD_def)
  have cls: "is_silent (Num e) \<longleftrightarrow> e \<le> THRESHOLD" "is_silent (Num THRESHOLD)"
    "is_silent NInf" "\<not> is_silent PInf" "\<not> is_silent NaN"
    by (simp_all add: is_silent_def)
  have st: "state_of (fst (observe (- 1) 0 (Num e))) = OpenInterval 0 \<longleftrightarrow> e \<le> 0.265"
    by (simp add: THRESHOLD_def observe_def state_of_def)
  have ob: "observe last_silent_time timestamp_seconds energy =
       (if is_silent energy then
          (if last_silent_time = - 1 then (timestamp_seconds, None) else (last_silent_time, None))
        else if last_silent_time \<noteq> - 1 then (- 1, Some (last_silent_time, timestamp_seconds))
        else (last_silent_time, None))"
    by (simp add: observe_def is_silent_def)
  have obn: "observe last_silent_time timestamp_seconds (Num e) =
       (if e \<le> 0.265 then
          (if last_silent_time = - 1 then (timestamp_seconds, None) else (last_silent_time, None))
        else if last_silent_time \<noteq> - 1 then (- 1, Some (last_silent_time, timestamp_seconds))
        else (last_silent_time, None))"
    by (simp add: observe_def THRESHOLD_def)
  have pf: "process_frame frame_rate (last_silent_time, output_file) frame =
       (case calculateEnergy (data0 frame) (nb_samples frame * nb_channels frame) of
          None \<Rightarrow> None
        | Some energy \<Rightarrow>
            if is_silent energy then
              (if last_silent_time = - 1 then Some (frame_time frame_rate (pts frame), output_file)
               else Some (last_silent_time, output_file))
            else if last_silent_time \<noteq> - 1 then
              (case insertTimestamp output_file last_silent_time (frame_time frame_rate (pts frame)) of
                 None \<Rightarrow> None
               | Some output_file' \<Rightarrow> Some (- 1, output_file'))
            else Some (last_silent_time, output_file))"
    by (simp add: process_frame_def is_silent_def Let_def split: option.splits)
  have mn: "hermes_main frame_rate [frame] duration ticks_per_frame time_base_den =
       (case calculateEnergy (data0 frame) (nb_samples frame * nb_channels frame) of
          None \<Rightarrow> None
        | Some energy \<Rightarrow>
            if is_silent energy \<and> frame_time frame_rate (pts frame) \<noteq> - 1 then
              (case end_of_stream_time duration ticks_per_frame time_base_den of
                 Num end_time \<Rightarrow> insertTimestamp [] (frame_time frame_rate (pts frame)) end_time
               | _ \<Rightarrow> None)
            else Some [])"
    by (simp add: hermes_main_def process_frame_def is_silent_def Let_def split: option.splits)
  have be: "calculateEnergy [24576, 24576, 24576, 24576, 24576, 24576, 24576, 24576, 24576, 24576, 24576,
                       16384, 8192, 8192, 8192, 0, 0, 0, 0, 0, 0, 0, 0, 0, 0] 25 = Some (Num THRESHOLD)"
    by (simp add: calculateEnergy_def energy_loop.simps ddiv_def THRESHOLD_def)
  have ex: "hermes_main 1 [\<lparr>pts = 1, nb_samples = 25, nb_channels = 1,
                      data0 = [24576, 24576, 24576, 24576, 24576, 24576, 24576, 24576, 24576, 24576, 24576,
                               16384, 8192, 8192, 8192, 0, 0, 0, 0, 0, 0, 0, 0, 0, 0]\<rparr>] 2 1 1 =
       Some (''Silent time: 0m1s - 0m2s'' @ endl)"
    by (simp add: hermes_main_def process_frame_def be frame_time_def end_of_stream_time_def ddiv_def
        insertTimestamp_def timestamp_fields_def to_int_def trunc_def fits_int_def
        report_line_def show_int_def digits.simps)
  show ?thesis
    by (intro conjI) (rule th cls st ob obn pf mn be ex)+
qed

subsection \<open>The tracker\<close>

text \<open>
  C1 (amended). For every call of \<open>observe\<close> whose timestamp is not \<open>-1\<close>, the code
  takes the transition of the specification's two-state machine: with no interval open
  a silent frame opens one at its timestamp and a frame that is not silent changes
  nothing; with an interval open a silent frame keeps the start and emits nothing, and
  a frame that is not silent emits \<open>(start, timestamp)\<close> and closes the interval.
\<close>

theorem observe_refines_spec:
  "timestamp_seconds \<noteq> - 1 \<Longrightarrow>
   map_prod state_of id (observe last_silent_time timestamp_seconds energy) =
     spec_observe (state_of last_silent_time) timestamp_seconds (is_silent energy)"
  by (simp add: observe_def state_of_def is_silent_def)

theorem observe_refines_spec_witness:
  "(0::real) \<noteq> - 1
   \<and> map_prod state_of id (observe (- 1) 0 (Num 0)) = (OpenInterval 0, None)
   \<and> map_prod state_of id (observe 0 1 (Num 0)) = (OpenInterval 0, None)
   \<and> map_prod state_of id (observe 0 2 (Num 1)) = (NoOpenInterval, Some (0, 2))
   \<and> map_prod state_of id (observe (- 1) 3 (Num 1)) = (NoOpenInterval, None)"
  using observe_refines_spec [of 0 "- 1" "Num 0"] observe_refines_spec [of 1 0 "Num 0"]
    observe_refines_spec [of 2 0 "Num 1"] observe_refines_spec [of 3 "- 1" "Num 1"]
  by (simp add: state_of_def is_silent_def THRESHOLD_def)

text \<open>At the timestamp \<open>-1\<close> the claim fails: with no interval open, a silent frame does not
  open one.\<close>

theorem observe_timestamp_minus_one:
  "map_prod state_of id (observe (- 1) (- 1) (Num 0)) \<noteq>
     spec_observe (state_of (- 1)) (- 1) (is_silent (Num 0))"
  by (simp add: observe_def state_of_def is_silent_def THRESHOLD_def)

text \<open>
  C3 (amended). \<open>flush\<close> emits \<open>(start, end_time)\<close> when an interval is open and nothing
  otherwise, as the specification's flush does; the variable \<open>last_silent_time\<close> keeps its
  value. For the frames at 0 (energy 0.9), 1 (energy 0.1) and 2 (energy 0.05) no call of
  \<open>observe\<close> emits anything and the flush at 3 emits \<open>(1, 3)\<close>.
\<close>

theorem flush_emits_open_interval:
  "snd (flush last_silent_time end_time) = snd (spec_flush (state_of last_silent_time) end_time)
   \<and> fst (flush last_silent_time end_time) = last_silent_time
   \<and> feed (- 1) [(0, Num 0.9), (1, Num 0.1), (2, Num 0.05)] = (1, [])
   \<and> flush 1 3 = (1, Some (1, 3))
   \<and> tracker_run [(0, Num 0.9), (1, Num 0.1), (2, Num 0.05)] 3 = [(1, 3)]"
  by (simp add: flush_def state_of_def observe_def THRESHOLD_def tracker_run_def run_from_def)

text \<open>After a flush that emitted an interval the state is not the one without an open
  interval.\<close>

theorem flush_keeps_state:
  "state_of (fst (flush 1 3)) \<noteq> fst (spec_flush (state_of 1) 3)"
  by (simp add: flush_def state_of_def)

text \<open>
  C4 (amended). For every sequence of \<open>(timestamp, energy)\<close> pairs with strictly increasing
  timestamps, none of them \<open>-1\<close> and none after the time given to the flush, the
  intervals emitted by the calls of \<open>observe\<close> and the one flush satisfy: each has
  \<open>start \<le> end\<close>; an earlier interval ends no later than a later one starts; the starts
  and ends one after the other are in non-decreasing order, and so are the starts, which
  are timestamps of frames in the order fed; and the number of intervals is the number
  of maximal runs of consecutive silent frames (\<open>silent_runs_card\<close> relates the count to
  the positions where a run ends). The state is the one variable \<open>last_silent_time\<close>, so
  at most one interval is open at any time.
\<close>

theorem emitted_intervals_ordered_and_counted:
  assumes "sorted_wrt (<) (map fst frames)"
    and "\<forall>t \<in> set (map fst frames). t \<noteq> - 1 \<and> t \<le> end_time"
  shows "(\<forall>(s, e) \<in> set (tracker_run frames end_time). s \<le> e)
       \<and> (\<forall>i j. i < j \<and> j < length (tracker_run frames end_time) \<longrightarrow>
             snd (tracker_run frames end_time ! i) \<le> fst (tracker_run frames end_time ! j))
       \<and> sorted (endpoints (tracker_run frames end_time))
       \<and> sorted (map fst (tracker_run frames end_time))
       \<and> subseq (map fst (tracker_run frames end_time)) (map fst frames)
       \<and> length (tracker_run frames end_time) = silent_runs (map (is_silent \<circ> snd) frames)"
proof -
  let ?ivs = "tracker_run frames end_time"
  have bnd: "\<forall>t \<in> fst ` set frames. t \<noteq> - 1 \<and> t \<le> end_time"
    using assms(2) by simp
  have srt: "sorted (endpoints ?ivs)"
    unfolding tracker_run_def
    by (rule sorted_endpoints_run_from [OF assms(1) bnd]) simp
  have le: "\<forall>(s, e) \<in> set ?ivs. s \<le> e"
    using sorted_endpoints_start_le_end [OF srt] by auto
  have dis: "\<forall>i j. i < j \<and> j < length ?ivs \<longrightarrow> snd (?ivs ! i) \<le> fst (?ivs ! j)"
    using sorted_endpoints_disjoint [OF srt] by blast
  have starts: "sorted (map fst ?ivs)"
    by (rule sorted_endpoints_starts [OF srt])
  have sub: "subseq (map fst ?ivs) (map fst frames)"
    using subseq_starts_run_from [of "- 1" frames end_time] by (simp add: tracker_run_def)
  have cnt: "length ?ivs = silent_runs (map (is_silent \<circ> snd) frames)"
    using length_run_from [of frames "- 1" end_time] bnd by (simp add: tracker_run_def)
  from le dis srt starts sub cnt show ?thesis by blast
qed

theorem emitted_intervals_ordered_and_counted_witness:
  "tracker_run [(0, Num 1), (1, Num 0), (2, Num 1), (3, Num 0), (4, Num 0), (5, Num 1)] 6 = [(1, 2), (3, 5)]
   \<and> sorted (endpoints (tracker_run [(0, Num 1), (1, Num 0), (2, Num 1), (3, Num 0), (4, Num 0), (5, Num 1)] 6))
   \<and> length (tracker_run [(0, Num 1), (1, Num 0), (2, Num 1), (3, Num 0), (4, Num 0), (5, Num 1)] 6) =
       silent_runs (map (is_silent \<circ> snd) [(0, Num 1), (1, Num 0), (2, Num 1), (3, Num 0), (4, Num 0), (5, Num 1)])
   \<and> silent_runs (map (is_silent \<circ> snd) [(0, Num 1), (1, Num 0), (2, Num 1), (3, Num 0), (4, Num 0), (5, Num 1)]) = 2"
proof -
  let ?fr = "[(0, Num 1), (1, Num 0), (2, Num 1), (3, Num 0), (4, Num 0), (5, Num 1)] :: (real \<times> double) list"
  have h1: "sorted_wrt (<) (map fst ?fr)" by simp
  have h2: "\<forall>t \<in> set (map fst ?fr). t \<noteq> - 1 \<and> t \<le> 6" by simp
  have ev: "tracker_run ?fr 6 = [(1, 2), (3, 5)]"
    by (simp add: tracker_run_def run_from_Cons run_from_Nil is_silent_def THRESHOLD_def)
  have n: "silent_runs (map (is_silent \<circ> snd) ?fr) = 2"
    by (simp add: is_silent_def THRESHOLD_def)
  from emitted_intervals_ordered_and_counted [OF h1 h2] ev n show ?thesis by simp
qed

text \<open>Without the two added conditions the claim fails: a silent frame at \<open>-1\<close> followed by
  a frame that is not silent is a run of which no interval is emitted, and a flush at a
  time before the open start emits an interval whose end is before its start.\<close>

theorem run_lost_and_end_before_start:
  "sorted_wrt (<) (map fst [(- 1, Num 0), (0 :: real, Num 1)])
   \<and> length (tracker_run [(- 1, Num 0), (0, Num 1)] 1) \<noteq>
       silent_runs (map (is_silent \<circ> snd) [(- 1, Num 0), (0 :: real, Num 1)])
   \<and> tracker_run [(5, Num 0)] 3 = [(5, 3)] \<and> \<not> (5 :: real) \<le> 3"
  by (simp add: tracker_run_def run_from_Cons run_from_Nil is_silent_def THRESHOLD_def)

text \<open>
  C10. The state without an open interval is \<open>last_silent_time = -1\<close>. A silent frame
  at the timestamp \<open>-1\<close>, met while no interval is open, stores \<open>-1\<close> and so leaves no
  interval open. The run it begins is dropped when the next frame is not silent, and is
  reported from the timestamp of the next silent frame otherwise.
\<close>

theorem sentinel_hides_silent_frame:
  "state_of (- 1) = NoOpenInterval
   \<and> (is_silent e1 \<longrightarrow> observe (- 1) (- 1) e1 = (- 1, None))
   \<and> (is_silent e1 \<and> \<not> is_silent e2 \<longrightarrow> tracker_run [(- 1, e1), (t2, e2)] end_time = [])
   \<and> (is_silent e1 \<and> is_silent e3 \<and> \<not> is_silent e4 \<and> t3 \<noteq> - 1 \<longrightarrow>
        tracker_run [(- 1, e1), (t3, e3), (t4, e4)] end_time = [(t3, t4)])"
  by (simp add: state_of_def observe_def tracker_run_def run_from_Cons run_from_Nil is_silent_def)

theorem sentinel_hides_silent_frame_witness:
  "is_silent (Num 0) \<and> \<not> is_silent (Num 1) \<and> (0::real) \<noteq> - 1
   \<and> observe (- 1) (- 1) (Num 0) = (- 1, None)
   \<and> tracker_run [(- 1, Num 0), (0, Num 1)] 5 = []
   \<and> tracker_run [(- 1, Num 0), (0, Num 0), (1, Num 1)] 5 = [(0, 1)]"
  using sentinel_hides_silent_frame [where ?e1.0 = "Num 0" and ?e2.0 = "Num 1" and ?t2.0 = 0
      and end_time = 5 and ?e3.0 = "Num 0" and ?e4.0 = "Num 1" and ?t3.0 = 0 and ?t4.0 = 1]
  by (simp add: is_silent_def THRESHOLD_def)

subsection \<open>Frames without samples\<close>

text \<open>
  C6 (amended). A frame without samples is not rejected and its energy is not defined
  as 0: \<^verbatim>\<open>calculateEnergy\<close> divides \<open>0.0\<close> by 0 and returns NaN, which reaches the test
  \<^verbatim>\<open>energy <= THRESHOLD\<close>. The test is false for NaN, so the frame is handled as a frame
  that is not silent: it closes the open interval, if there is one, and changes nothing
  otherwise.
\<close>

theorem zero_sample_frame_is_loud:
  "calculateEnergy samples 0 = Some NaN
   \<and> \<not> is_silent NaN
   \<and> observe last_silent_time timestamp_seconds NaN =
       (if last_silent_time \<noteq> - 1 then (- 1, Some (last_silent_time, timestamp_seconds))
        else (last_silent_time, None))
   \<and> process_frame frame_rate (last_silent_time, output_file)
         \<lparr>pts = p, nb_samples = 0, nb_channels = c, data0 = samples\<rparr> =
       (if last_silent_time \<noteq> - 1 then
          (case insertTimestamp output_file last_silent_time (frame_time frame_rate p) of
             None \<Rightarrow> None
           | Some output_file' \<Rightarrow> Some (- 1, output_file'))
        else Some (last_silent_time, output_file))"
  by (simp add: calculateEnergy_zero_count is_silent_def observe_def process_frame_def)

text \<open>A silent frame at tick 0 and a frame without samples at tick 1, in a stream of 2
  seconds: the second frame ends the interval at 1, where a stream of the first frame
  alone has the interval end at 2.\<close>

theorem zero_sample_frame_reaches_classification:
  "calculateEnergy [] 0 = Some NaN
   \<and> hermes_main 1 [\<lparr>pts = 0, nb_samples = 1, nb_channels = 1, data0 = [0]\<rparr>,
                    \<lparr>pts = 1, nb_samples = 0, nb_channels = 1, data0 = []\<rparr>] 2 1 1 =
       Some (''Silent time: 0m0s - 0m1s'' @ endl)
   \<and> hermes_main 1 [\<lparr>pts = 0, nb_samples = 1, nb_channels = 1, data0 = [0]\<rparr>] 2 1 1 =
       Some (''Silent time: 0m0s - 0m2s'' @ endl)"
  by (simp add: hermes_main_def process_frame_def calculateEnergy_zero_count
      calculateEnergy_one_zero THRESHOLD_def frame_time_def end_of_stream_time_def ddiv_def
      insertTimestamp_def timestamp_fields_def to_int_def trunc_def fits_int_def
      report_line_def show_int_def digits.simps)

subsection \<open>The time of the end of the stream\<close>

text \<open>
  C7. The claim is that the time given to the flush is the stream's duration in the
  seconds of the frames' timestamps. The code converts a frame's ticks with the stream's
  time base, and the duration, which is in the same ticks, with the codec context's
  \<^verbatim>\<open>ticks_per_frame\<close> and \<^verbatim>\<open>time_base.den\<close>. For a stream with a time base of 1/1000 second
  and a duration of 5000 ticks, and a codec context with \<^verbatim>\<open>ticks_per_frame = 1\<close> and
  \<^verbatim>\<open>time_base.den = 1\<close>, the end of the stream is put at 5000 seconds, while a frame at
  tick 5000 is at 5 seconds: a silent frame at tick 1000 is reported as silent from
  0m1s to 83m5000s.
\<close>

theorem flush_time_not_in_seconds:
  "end_of_stream_time 5000 1 1 = Num 5000
   \<and> frame_time (1 / 1000) 5000 = 5
   \<and> hermes_main (1 / 1000) [\<lparr>pts = 1000, nb_samples = 1, nb_channels = 1, data0 = [0]\<rparr>] 5000 1 1 =
       Some (''Silent time: 0m1s - 83m5000s'' @ endl)"
  by (simp add: hermes_main_def process_frame_def
      calculateEnergy_one_zero THRESHOLD_def frame_time_def end_of_stream_time_def ddiv_def
      insertTimestamp_def timestamp_fields_def to_int_def trunc_def fits_int_def
      report_line_def show_int_def digits.simps)

subsection \<open>The report\<close>

text \<open>
  C8 (amended). For every interval that \<^verbatim>\<open>insertTimestamp\<close> writes, the start minutes are
  \<open>floor (start_time / 60)\<close>, the start seconds are \<open>start_time - start_minutes * 60\<close> with
  the fractional part dropped, the end minutes are \<open>floor (end_time / 60)\<close>, and the end
  seconds are \<open>end_time - start_minutes * 60\<close> with the fractional part dropped: the
  minutes of the start, not those of the end. The interval is written exactly when
  these four numbers fit an \<^verbatim>\<open>int\<close>. An interval from 30 to 90 seconds has the fields
  0, 30, 1 and 90.
\<close>

theorem timestamp_fields_split:
  "timestamp_fields start_time end_time =
     (if fits_int \<lfloor>start_time / 60\<rfloor>
         \<and> fits_int (trunc (start_time - real_of_int \<lfloor>start_time / 60\<rfloor> * 60))
         \<and> fits_int \<lfloor>end_time / 60\<rfloor>
         \<and> fits_int (trunc (end_time - real_of_int \<lfloor>start_time / 60\<rfloor> * 60))
      then Some (\<lfloor>start_time / 60\<rfloor>,
                 trunc (start_time - real_of_int \<lfloor>start_time / 60\<rfloor> * 60),
                 \<lfloor>end_time / 60\<rfloor>,
                 trunc (end_time - real_of_int \<lfloor>start_time / 60\<rfloor> * 60))
      else None)
   \<and> timestamp_fields 30 90 = Some (0, 30, 1, 90)"
  by (simp add: timestamp_fields_def to_int_of_int)
     (simp add: to_int_def trunc_def fits_int_def)

text \<open>For a start at 1.5 seconds the start seconds are 1, not \<open>1.5 - 0 * 60\<close>.\<close>

theorem start_seconds_truncated:
  "timestamp_fields (3 / 2) 2 = Some (0, 1, 0, 2)
   \<and> real_of_int 1 \<noteq> 3 / 2 - real_of_int 0 * 60"
  by (simp add: timestamp_fields_def to_int_def trunc_def fits_int_def)

text \<open>
  C9 (amended). When \<open>main\<close> completes, the output file is, in the order of emission, one
  line for each interval that the tracker emits for the frames' \<open>(timestamp, energy)\<close>
  pairs and the end of the stream. A line is
  \<open>Silent time: {start_min}m{start_sec}s - {end_min}m{end_sec}s\<close> followed by a line
  break, and has no other line break; its four fields are the integers that
  \<open>timestamp_fields\<close> computes, so the seconds are written without their fractional part.
\<close>

theorem report_lines_in_emission_order:
  assumes "hermes_main frame_rate frames duration ticks_per_frame time_base_den = Some out"
  shows "\<exists>obs end_time fields.
           observations frame_rate frames = Some obs
         \<and> (fst (feed (- 1) obs) \<noteq> - 1 \<longrightarrow>
              end_of_stream_time duration ticks_per_frame time_base_den = Num end_time)
         \<and> map (\<lambda>(s, e). timestamp_fields s e) (tracker_run obs end_time) = map Some fields
         \<and> out = concat (map report_line fields)
         \<and> (\<forall>f \<in> set fields. count_list (report_line f) (CHR 0x0A) = 1)
         \<and> (\<forall>f \<in> set fields. report_line f =
              ''Silent time: '' @ show_int (fst f) @ ''m'' @ show_int (fst (snd f)) @ ''s - ''
                @ show_int (fst (snd (snd f))) @ ''m'' @ show_int (snd (snd (snd f))) @ ''s''
                @ [CHR 0x0A])"
proof -
  from assms obtain l out1 where
    loop: "frame_loop frame_rate (- 1, []) frames = Some (l, out1)"
    by (auto simp: hermes_main_def split: option.splits)
  from frame_loop_feed [OF loop] obtain obs fields where
    obs: "observations frame_rate frames = Some obs" and l: "fst (feed (- 1) obs) = l"
    and tf: "map (\<lambda>(s, e). timestamp_fields s e) (snd (feed (- 1) obs)) = map Some fields"
    and out1: "out1 = concat (map report_line fields)" by auto
  have form: "\<And>f. report_line f =
      ''Silent time: '' @ show_int (fst f) @ ''m'' @ show_int (fst (snd f)) @ ''s - ''
        @ show_int (fst (snd (snd f))) @ ''m'' @ show_int (snd (snd (snd f))) @ ''s''
        @ [CHR 0x0A]"
    by (simp add: report_line_def endl_def split: prod.splits)
  show ?thesis
  proof (cases "l = - 1")
    case True
    with assms loop have "out = out1" by (simp add: hermes_main_def)
    with obs l tf out1 True have
      "observations frame_rate frames = Some obs
       \<and> (fst (feed (- 1) obs) \<noteq> - 1 \<longrightarrow>
            end_of_stream_time duration ticks_per_frame time_base_den = Num 0)
       \<and> map (\<lambda>(s, e). timestamp_fields s e) (tracker_run obs 0) = map Some fields
       \<and> out = concat (map report_line fields)"
      by (simp add: tracker_run_def run_from_feed)
    with form show ?thesis using report_line_one_newline by blast
  next
    case False
    with assms loop obtain end_time f where
      et: "end_of_stream_time duration ticks_per_frame time_base_den = Num end_time"
      and f: "timestamp_fields l end_time = Some f"
      and out: "out = out1 @ report_line f"
      by (auto simp: hermes_main_def insertTimestamp_def split: double.splits option.splits)
    with obs l tf out1 False have
      "observations frame_rate frames = Some obs
       \<and> (fst (feed (- 1) obs) \<noteq> - 1 \<longrightarrow>
            end_of_stream_time duration ticks_per_frame time_base_den = Num end_time)
       \<and> map (\<lambda>(s, e). timestamp_fields s e) (tracker_run obs end_time) = map Some (fields @ [f])
       \<and> out = concat (map report_line (fields @ [f]))"
      by (simp add: tracker_run_def run_from_feed)
    with form show ?thesis using report_line_one_newline by blast
  qed
qed

theorem report_lines_in_emission_order_witness:
  "hermes_main 1 [\<lparr>pts = 0, nb_samples = 1, nb_channels = 1, data0 = [0]\<rparr>,
                  \<lparr>pts = 1, nb_samples = 1, nb_channels = 1, data0 = [32767]\<rparr>,
                  \<lparr>pts = 2, nb_samples = 1, nb_channels = 1, data0 = [0]\<rparr>] 3 1 1 =
     Some (''Silent time: 0m0s - 0m1s'' @ endl @ ''Silent time: 0m2s - 0m3s'' @ endl)
   \<and> (\<exists>obs end_time fields.
         observations 1 [\<lparr>pts = 0, nb_samples = 1, nb_channels = 1, data0 = [0]\<rparr>,
                          \<lparr>pts = 1, nb_samples = 1, nb_channels = 1, data0 = [32767]\<rparr>,
                          \<lparr>pts = 2, nb_samples = 1, nb_channels = 1, data0 = [0]\<rparr>] = Some obs
       \<and> map (\<lambda>(s, e). timestamp_fields s e) (tracker_run obs end_time) = map Some fields
       \<and> ''Silent time: 0m0s - 0m1s'' @ endl @ ''Silent time: 0m2s - 0m3s'' @ endl =
           concat (map report_line fields))"
proof -
  have h: "hermes_main 1 [\<lparr>pts = 0, nb_samples = 1, nb_channels = 1, data0 = [0]\<rparr>,
                  \<lparr>pts = 1, nb_samples = 1, nb_channels = 1, data0 = [32767]\<rparr>,
                  \<lparr>pts = 2, nb_samples = 1, nb_channels = 1, data0 = [0]\<rparr>] 3 1 1 =
     Some (''Silent time: 0m0s - 0m1s'' @ endl @ ''Silent time: 0m2s - 0m3s'' @ endl)"
    by (simp add: hermes_main_def process_frame_def calculateEnergy_one_zero
        calculateEnergy_one_full power2_eq_square
        THRESHOLD_def frame_time_def end_of_stream_time_def ddiv_def
        insertTimestamp_def timestamp_fields_def to_int_def trunc_def fits_int_def
        report_line_def show_int_def digits.simps)
  from report_lines_in_emission_order [OF h] h show ?thesis by blast
qed

text \<open>An interval from 1.5 to 2.5 seconds is written with the seconds 1 and 2, as the
  interval from 1 to 2 seconds is.\<close>

theorem seconds_fields_are_integers:
  "insertTimestamp [] (3 / 2) (5 / 2) = Some (''Silent time: 0m1s - 0m2s'' @ endl)
   \<and> insertTimestamp [] (3 / 2) (5 / 2) = insertTimestamp [] 1 2"
  by (simp add: insertTimestamp_def timestamp_fields_def to_int_def trunc_def fits_int_def
      report_line_def show_int_def digits.simps)

end
